theory Spec2Isabelle
  imports Complex_Main
begin

section \<open>Data model of the sonic world (src/components/SonicWorld.tsx)\<close>

text \<open>
  The source computes with JavaScript numbers. Finite values are modelled as
  \<^typ>\<open>real\<close> with exact arithmetic; the one place where a non-finite value can
  arise from finite inputs (the division of the Doppler step) is modelled with
  an explicit number type further below, and the occlusion tests are given a second
  time with the rounding of every arithmetic operation made explicit.
\<close>

record ListenerPose =
  pose_x :: real
  pose_z :: real
  headingDeg :: real

record CollisionZone =
  zone_id :: string
  zone_label :: string
  zone_x :: real
  zone_z :: real
  zone_radius :: real

record Wall =
  wall_id :: string
  wall_x :: real
  wall_z :: real
  wall_width :: real
  wall_height :: real

datatype OscillatorType = Sine | Triangle | Square | Sawtooth

record SoundEmitter =
  emitter_id :: string
  emitter_name :: string
  emitter_x :: real
  emitter_z :: real
  emitter_y :: real
  frequency :: real
  gain :: real
  waveform :: OscillatorType
  color :: string
  moving :: bool
  vx :: real
  vz :: real

definition WORLD_RADIUS_M :: real where "WORLD_RADIUS_M = 16"
definition PLAYER_RADIUS_M :: real where "PLAYER_RADIUS_M = 0.45"
definition EMITTER_RADIUS_M :: real where "EMITTER_RADIUS_M = 0.35"
definition CANVAS_SIZE :: real where "CANVAS_SIZE = 840"
definition MOVE_SPEED_MPS :: real where "MOVE_SPEED_MPS = 2.75"
definition TURN_SPEED_DEG_PER_SEC :: real where "TURN_SPEED_DEG_PER_SEC = 95"
definition SOUND_SPEED_MPS :: real where "SOUND_SPEED_MPS = 343"

definition INITIAL_LISTENER :: ListenerPose where
  "INITIAL_LISTENER = \<lparr>pose_x = 0, pose_z = 0, headingDeg = 0\<rparr>"

definition INITIAL_ZONES :: "CollisionZone list" where
  "INITIAL_ZONES =
    [\<lparr>zone_id = ''zone-1'', zone_label = ''Concrete Pillar'', zone_x = - 4.8, zone_z = - 1.5, zone_radius = 1.6\<rparr>,
     \<lparr>zone_id = ''zone-2'', zone_label = ''Kiosk'', zone_x = 5, zone_z = 4.5, zone_radius = 1.9\<rparr>,
     \<lparr>zone_id = ''zone-3'', zone_label = ''Bench Cluster'', zone_x = 3.4, zone_z = - 6.8, zone_radius = 1.35\<rparr>]"

definition INITIAL_WALLS :: "Wall list" where
  "INITIAL_WALLS =
    [\<lparr>wall_id = ''wall-1'', wall_x = - 7.2, wall_z = 2.4, wall_width = 4.6, wall_height = 0.8\<rparr>,
     \<lparr>wall_id = ''wall-2'', wall_x = 1.8, wall_z = - 2.8, wall_width = 0.8, wall_height = 5.6\<rparr>,
     \<lparr>wall_id = ''wall-3'', wall_x = 6.7, wall_z = - 0.5, wall_width = 0.8, wall_height = 4.2\<rparr>]"

definition INITIAL_EMITTERS :: "SoundEmitter list" where
  "INITIAL_EMITTERS =
    [\<lparr>emitter_id = ''emitter-1'', emitter_name = ''Drone A'', emitter_x = - 6, emitter_z = 5,
      emitter_y = 0, frequency = 470, gain = 0.16, waveform = Triangle, color = ''#0f8c7c'',
      moving = True, vx = 0.9, vz = - 0.55\<rparr>,
     \<lparr>emitter_id = ''emitter-2'', emitter_name = ''Beacon B'', emitter_x = 4.8, emitter_z = - 5.2,
      emitter_y = 0.3, frequency = 690, gain = 0.14, waveform = Sine, color = ''#df7c20'',
      moving = False, vx = 0, vz = 0\<rparr>,
     \<lparr>emitter_id = ''emitter-3'', emitter_name = ''Drone C'', emitter_x = 7.2, emitter_z = 3.4,
      emitter_y = - 0.25, frequency = 920, gain = 0.12, waveform = Square, color = ''#4670e7'',
      moving = True, vx = - 0.75, vz = 0.45\<rparr>]"

section \<open>Numeric helpers\<close>

text \<open>\<open>clamp(value, min, max) = Math.min(max, Math.max(min, value))\<close>.\<close>

definition clamp :: "real \<Rightarrow> real \<Rightarrow> real \<Rightarrow> real" where
  "clamp v lo hi = min hi (max lo v)"

text \<open>\<open>Math.hypot\<close> on two arguments.\<close>

definition hypot :: "real \<Rightarrow> real \<Rightarrow> real" where
  "hypot a b = sqrt (a * a + b * b)"

section \<open>CollisionResolver: \<open>collidesAt\<close>\<close>

text \<open>The two \<open>for\<close> loops of \<open>collidesAt\<close>, each returning at the first hit.\<close>

fun zoneLoop :: "CollisionZone list \<Rightarrow> real \<Rightarrow> real \<Rightarrow> real \<Rightarrow> bool" where
  "zoneLoop [] x z r = False"
| "zoneLoop (zone # zones) x z r =
     (if hypot (x - zone_x zone) (z - zone_z zone) \<le> zone_radius zone + r then True
      else zoneLoop zones x z r)"

definition insideExpanded :: "Wall \<Rightarrow> real \<Rightarrow> real \<Rightarrow> real \<Rightarrow> bool" where
  "insideExpanded wall x z r =
     (let left = wall_x wall - wall_width wall / 2 - r;
          right = wall_x wall + wall_width wall / 2 + r;
          top = wall_z wall - wall_height wall / 2 - r;
          bottom = wall_z wall + wall_height wall / 2 + r
      in x \<ge> left \<and> x \<le> right \<and> z \<ge> top \<and> z \<le> bottom)"

fun wallLoop :: "Wall list \<Rightarrow> real \<Rightarrow> real \<Rightarrow> real \<Rightarrow> bool" where
  "wallLoop [] x z r = False"
| "wallLoop (wall # ws) x z r =
     (if insideExpanded wall x z r then True else wallLoop ws x z r)"

definition collidesAt :: "CollisionZone list \<Rightarrow> Wall list \<Rightarrow> real \<Rightarrow> real \<Rightarrow> real \<Rightarrow> bool" where
  "collidesAt zones ws x z r =
     (if hypot x z + r > WORLD_RADIUS_M then True
      else if zoneLoop zones x z r then True
      else if wallLoop ws x z r then True
      else False)"

section \<open>MotionIntegrator: the animation-frame \<open>tick\<close>\<close>

text \<open>
  JavaScript's \<open>%\<close> on numbers truncates the quotient toward zero, so the remainder
  has the sign of the dividend.
\<close>

definition js_trunc :: "real \<Rightarrow> int" where
  "js_trunc q = (if q \<ge> 0 then \<lfloor>q\<rfloor> else \<lceil>q\<rceil>)"

definition js_rem :: "real \<Rightarrow> real \<Rightarrow> real" where
  "js_rem a n = a - n * of_int (js_trunc (a / n))"

definition wrapDegrees :: "real \<Rightarrow> real" where
  "wrapDegrees v = (let normalized = js_rem v 360 in
                     if normalized < 0 then normalized + 360 else normalized)"

definition toRadians :: "real \<Rightarrow> real" where
  "toRadians deg = (deg * pi) / 180"

text \<open>
  The React state read and written by the tick, and the counters and selection used by
  the entity commands.
\<close>

record WorldState =
  listener :: ListenerPose
  emitters :: "SoundEmitter list"
  collisionZones :: "CollisionZone list"
  walls :: "Wall list"
  walkMode :: bool
  movingEnabled :: bool
  selectedEmitterId :: "string option"
  emitterCounter :: nat

text \<open>The constants computed at the head of the \<open>setListener\<close> callback.\<close>

definition nextHeading :: "real \<Rightarrow> real \<Rightarrow> ListenerPose \<Rightarrow> real" where
  "nextHeading turn delta current =
     wrapDegrees (headingDeg current + turn * TURN_SPEED_DEG_PER_SEC * delta)"

definition desiredX :: "real \<Rightarrow> real \<Rightarrow> real \<Rightarrow> real \<Rightarrow> ListenerPose \<Rightarrow> real" where
  "desiredX forward strafe turn delta current =
     (let rad = toRadians (nextHeading turn delta current);
          fx = sin rad; rx = cos rad;
          step = MOVE_SPEED_MPS * delta
      in pose_x current + (forward * fx + strafe * rx) * step)"

definition desiredZ :: "real \<Rightarrow> real \<Rightarrow> real \<Rightarrow> real \<Rightarrow> ListenerPose \<Rightarrow> real" where
  "desiredZ forward strafe turn delta current =
     (let rad = toRadians (nextHeading turn delta current);
          fz = - cos rad; rz = sin rad;
          step = MOVE_SPEED_MPS * delta
      in pose_z current + (forward * fz + strafe * rz) * step)"

text \<open>The \<open>setListener\<close> callback: the axis-separated slide.\<close>

definition moveListener ::
  "CollisionZone list \<Rightarrow> Wall list \<Rightarrow> real \<Rightarrow> real \<Rightarrow> real \<Rightarrow> real \<Rightarrow> ListenerPose \<Rightarrow> ListenerPose" where
  "moveListener zones ws forward strafe turn delta current =
     (let heading = nextHeading turn delta current;
          nextX = desiredX forward strafe turn delta current;
          nextZ = desiredZ forward strafe turn delta current
      in if collidesAt zones ws nextX nextZ PLAYER_RADIUS_M then
           (if \<not> collidesAt zones ws nextX (pose_z current) PLAYER_RADIUS_M then
              \<lparr>pose_x = nextX, pose_z = pose_z current, headingDeg = heading\<rparr>
            else if \<not> collidesAt zones ws (pose_x current) nextZ PLAYER_RADIUS_M then
              \<lparr>pose_x = pose_x current, pose_z = nextZ, headingDeg = heading\<rparr>
            else
              \<lparr>pose_x = pose_x current, pose_z = pose_z current, headingDeg = heading\<rparr>)
         else \<lparr>pose_x = nextX, pose_z = nextZ, headingDeg = heading\<rparr>)"

text \<open>The callback mapped over the emitters: integrate, then bounce.\<close>

definition moveEmitter :: "CollisionZone list \<Rightarrow> Wall list \<Rightarrow> real \<Rightarrow> SoundEmitter \<Rightarrow> SoundEmitter" where
  "moveEmitter zones ws delta emitter =
     (if \<not> moving emitter then emitter
      else
        let vx0 = vx emitter;
            vz0 = vz emitter;
            nx0 = emitter_x emitter + vx0 * delta;
            nz0 = emitter_z emitter + vz0 * delta
        in if collidesAt zones ws nx0 nz0 EMITTER_RADIUS_M then
             (let collidesX = collidesAt zones ws nx0 (emitter_z emitter) EMITTER_RADIUS_M;
                  collidesZ = collidesAt zones ws (emitter_x emitter) nz0 EMITTER_RADIUS_M;
                  vx1 = (if collidesX then - vx0 else vx0);
                  nx1 = (if collidesX then emitter_x emitter + vx1 * delta else nx0);
                  vz1 = (if collidesZ then - vz0 else vz0);
                  nz1 = (if collidesZ then emitter_z emitter + vz1 * delta else nz0)
              in if collidesAt zones ws nx1 nz1 EMITTER_RADIUS_M then
                   (let vx2 = - vx1; vz2 = - vz1
                    in emitter\<lparr>emitter_x := emitter_x emitter + vx2 * delta,
                               emitter_z := emitter_z emitter + vz2 * delta,
                               vx := vx2, vz := vz2\<rparr>)
                 else emitter\<lparr>emitter_x := nx1, emitter_z := nz1, vx := vx1, vz := vz1\<rparr>)
           else emitter\<lparr>emitter_x := nx0, emitter_z := nz0, vx := vx0, vz := vz0\<rparr>)"

text \<open>
  One animation frame. \<open>keys\<close> is the set of held keys, \<open>previous\<close> and \<open>now\<close> are
  the two timestamps in milliseconds.
\<close>

definition held :: "string set \<Rightarrow> string \<Rightarrow> real" where
  "held keys k = (if k \<in> keys then 1 else 0)"

definition tickDelta :: "real \<Rightarrow> real \<Rightarrow> real" where
  "tickDelta previous now = min ((now - previous) / 1000) 0.04"

definition tick :: "string set \<Rightarrow> real \<Rightarrow> real \<Rightarrow> WorldState \<Rightarrow> WorldState" where
  "tick keys previous now w =
     (let delta = tickDelta previous now;
          forward = held keys ''w'' - held keys ''s'';
          strafe = held keys ''d'' - held keys ''a'';
          turn = (if ''e'' \<in> keys \<or> ''arrowright'' \<in> keys then 1 else 0)
                 - (if ''q'' \<in> keys \<or> ''arrowleft'' \<in> keys then 1 else 0);
          w1 = (if walkMode w \<and> (forward \<noteq> 0 \<or> strafe \<noteq> 0 \<or> turn \<noteq> 0)
                then w\<lparr>listener := moveListener (collisionZones w) (walls w)
                                       forward strafe turn delta (listener w)\<rparr>
                else w)
      in if movingEnabled w
         then w1\<lparr>emitters := map (moveEmitter (collisionZones w) (walls w) delta) (emitters w1)\<rparr>
         else w1)"

section \<open>CollisionResolver: segment tests used for occlusion\<close>

definition circleLineIntersection ::
  "real \<Rightarrow> real \<Rightarrow> real \<Rightarrow> real \<Rightarrow> real \<Rightarrow> real \<Rightarrow> real \<Rightarrow> bool" where
  "circleLineIntersection ax az bx bz cx cz radius =
     (let abx = bx - ax;
          abz = bz - az;
          acx = cx - ax;
          acz = cz - az;
          abLenSq = abx * abx + abz * abz
      in if abLenSq < 1 / 1000000 then hypot (cx - ax) (cz - az) \<le> radius
         else
           let projection = clamp ((acx * abx + acz * abz) / abLenSq) 0 1;
               closestX = ax + abx * projection;
               closestZ = az + abz * projection
           in hypot (cx - closestX) (cz - closestZ) \<le> radius)"

text \<open>
  \<open>lineIntersectsWall\<close> samples the segment at \<open>t = i / 18\<close> for \<open>i = 0, \<dots>, 18\<close>
  and returns at the first sample inside the rectangle. Here the sample is the exact
  point \<open>a + (b - a) * t\<close>; in the program it is that value rounded at each
  operation, which for \<open>i = 0\<close> is the point \<open>a\<close> itself and for \<open>i = 18\<close> is the
  point \<open>b\<close> only up to rounding (see the tests in double arithmetic below).
\<close>

definition steps :: nat where "steps = 18"

definition sampleInside :: "real \<Rightarrow> real \<Rightarrow> real \<Rightarrow> real \<Rightarrow> Wall \<Rightarrow> nat \<Rightarrow> bool" where
  "sampleInside ax az bx bz wall i =
     (let left = wall_x wall - wall_width wall / 2;
          right = wall_x wall + wall_width wall / 2;
          top = wall_z wall - wall_height wall / 2;
          bottom = wall_z wall + wall_height wall / 2;
          t = real i / real steps;
          x = ax + (bx - ax) * t;
          z = az + (bz - az) * t
      in x \<ge> left \<and> x \<le> right \<and> z \<ge> top \<and> z \<le> bottom)"

function sampleLoop :: "real \<Rightarrow> real \<Rightarrow> real \<Rightarrow> real \<Rightarrow> Wall \<Rightarrow> nat \<Rightarrow> bool" where
  "sampleLoop ax az bx bz wall i =
     (if i \<le> steps
      then (if sampleInside ax az bx bz wall i then True
            else sampleLoop ax az bx bz wall (i + 1))
      else False)"
  by pat_completeness auto
termination
  by (relation "measure (\<lambda>(ax, az, bx, bz, wall, i). Suc steps - i)") auto

declare sampleLoop.simps [simp del]

definition lineIntersectsWall :: "real \<Rightarrow> real \<Rightarrow> real \<Rightarrow> real \<Rightarrow> Wall \<Rightarrow> bool" where
  "lineIntersectsWall ax az bx bz wall = sampleLoop ax az bx bz wall 0"

section \<open>AcousticModel: Doppler step and occlusion flag of \<open>reconnectAudioEmitters\<close>\<close>

text \<open>
  The quotient \<open>SOUND_SPEED_MPS / (SOUND_SPEED_MPS - towardListener)\<close> is the one
  operation of the step whose divisor can be zero for finite inputs. JavaScript then
  yields an infinity or NaN instead of failing, so the value of the step is a
  \<open>jsnum\<close>: a finite number, one of the two infinities, or NaN. A difference of two
  equal finite numbers is \<open>+0\<close>, which fixes the sign of the infinity.
\<close>

datatype jsnum = Num real | PosInf | NegInf | NaN

definition js_div :: "real \<Rightarrow> real \<Rightarrow> jsnum" where
  "js_div a b = (if b \<noteq> 0 then Num (a / b)
                 else if a > 0 then PosInf else if a < 0 then NegInf else NaN)"

fun js_mul :: "real \<Rightarrow> jsnum \<Rightarrow> jsnum" where
  "js_mul f (Num q) = Num (f * q)"
| "js_mul f PosInf = (if f > 0 then PosInf else if f < 0 then NegInf else NaN)"
| "js_mul f NegInf = (if f > 0 then NegInf else if f < 0 then PosInf else NaN)"
| "js_mul f NaN = NaN"

text \<open>\<open>Math.max\<close> and \<open>Math.min\<close>: NaN if either argument is NaN.\<close>

fun js_max :: "jsnum \<Rightarrow> jsnum \<Rightarrow> jsnum" where
  "js_max NaN b = NaN"
| "js_max a NaN = NaN"
| "js_max PosInf b = PosInf"
| "js_max a PosInf = PosInf"
| "js_max NegInf b = b"
| "js_max a NegInf = a"
| "js_max (Num a) (Num b) = Num (max a b)"

fun js_min :: "jsnum \<Rightarrow> jsnum \<Rightarrow> jsnum" where
  "js_min NaN b = NaN"
| "js_min a NaN = NaN"
| "js_min NegInf b = NegInf"
| "js_min a NegInf = NegInf"
| "js_min PosInf b = b"
| "js_min a PosInf = a"
| "js_min (Num a) (Num b) = Num (min a b)"

definition js_clamp :: "jsnum \<Rightarrow> real \<Rightarrow> real \<Rightarrow> jsnum" where
  "js_clamp v lo hi = js_min (Num hi) (js_max (Num lo) v)"

definition towardListener :: "ListenerPose \<Rightarrow> SoundEmitter \<Rightarrow> real" where
  "towardListener l emitter =
     (let dx = pose_x l - emitter_x emitter;
          dz = pose_z l - emitter_z emitter;
          distance = max 0.001 (hypot dx dz)
      in (vx emitter * dx + vz emitter * dz) / distance)"

definition observedFreq :: "ListenerPose \<Rightarrow> SoundEmitter \<Rightarrow> jsnum" where
  "observedFreq l emitter =
     js_clamp
       (js_mul (frequency emitter)
          (js_div SOUND_SPEED_MPS (SOUND_SPEED_MPS - towardListener l emitter)))
       (frequency emitter * 0.6)
       (frequency emitter * 1.8)"

text \<open>The two occlusion loops, each leaving at the first hit (\<open>break\<close>).\<close>

fun zoneOcclusionLoop :: "CollisionZone list \<Rightarrow> real \<Rightarrow> real \<Rightarrow> real \<Rightarrow> real \<Rightarrow> bool" where
  "zoneOcclusionLoop [] lx lz ex ez = False"
| "zoneOcclusionLoop (zone # zones) lx lz ex ez =
     (if circleLineIntersection lx lz ex ez (zone_x zone) (zone_z zone) (zone_radius zone)
      then True
      else zoneOcclusionLoop zones lx lz ex ez)"

fun wallOcclusionLoop :: "Wall list \<Rightarrow> real \<Rightarrow> real \<Rightarrow> real \<Rightarrow> real \<Rightarrow> bool" where
  "wallOcclusionLoop [] lx lz ex ez = False"
| "wallOcclusionLoop (wall # ws) lx lz ex ez =
     (if lineIntersectsWall lx lz ex ez wall then True
      else wallOcclusionLoop ws lx lz ex ez)"

definition occluded :: "CollisionZone list \<Rightarrow> Wall list \<Rightarrow> ListenerPose \<Rightarrow> SoundEmitter \<Rightarrow> bool" where
  "occluded zones ws l emitter =
     (let occ = zoneOcclusionLoop zones (pose_x l) (pose_z l) (emitter_x emitter) (emitter_z emitter)
      in if \<not> occ
         then wallOcclusionLoop ws (pose_x l) (pose_z l) (emitter_x emitter) (emitter_z emitter)
         else occ)"

section \<open>Entity commands\<close>

definition canvasToPoint :: "real \<Rightarrow> real \<Rightarrow> real \<Rightarrow> real \<times> real" where
  "canvasToPoint x y canvasSize =
     (let radiusPx = canvasSize * 0.43;
          center = canvasSize / 2
      in (clamp (((x - center) / radiusPx) * WORLD_RADIUS_M) (- WORLD_RADIUS_M) WORLD_RADIUS_M,
          clamp (((y - center) / radiusPx) * WORLD_RADIUS_M) (- WORLD_RADIUS_M) WORLD_RADIUS_M))"

text \<open>\<open>pointToCanvas\<close>, the inverse mapping from a world point to canvas coordinates.\<close>

definition pointToCanvas :: "real \<Rightarrow> real \<Rightarrow> real \<Rightarrow> real \<times> real" where
  "pointToCanvas x z canvasSize =
     (let radiusPx = canvasSize * 0.43;
          center = canvasSize / 2
      in (center + (x / WORLD_RADIUS_M) * radiusPx, center + (z / WORLD_RADIUS_M) * radiusPx))"

text \<open>\<open>randomBetween(min, max)\<close>, with the value \<open>u\<close> of \<open>Math.random()\<close> as an argument.\<close>

definition randomBetween :: "real \<Rightarrow> real \<Rightarrow> real \<Rightarrow> real" where
  "randomBetween u lo hi = u * (hi - lo) + lo"

text \<open>Decimal digits of a counter, for the template strings that build ids and names.\<close>

function showNat :: "nat \<Rightarrow> string" where
  "showNat n = (if n < 10 then [char_of (48 + n)]
                else showNat (n div 10) @ [char_of (48 + n mod 10)])"
  by pat_completeness auto
termination
  by (relation "measure id") auto

declare showNat.simps [simp del]

text \<open>
  The fields of a new emitter that \<open>addEmitter\<close> draws at random. None of them depends
  on the requested position, so the drawn values are an argument of the model.
\<close>

record EmitterDraws =
  draw_y :: real
  draw_frequency :: real
  draw_gain :: real
  draw_waveform :: OscillatorType
  draw_color :: string
  draw_moving :: bool
  draw_vx :: real
  draw_vz :: real

definition addEmitter :: "real \<Rightarrow> real \<Rightarrow> EmitterDraws \<Rightarrow> WorldState \<Rightarrow> WorldState" where
  "addEmitter x z d w =
     (let n = showNat (emitterCounter w);
          ident = ''emitter-'' @ n;
          newEmitter = \<lparr>emitter_id = ident, emitter_name = ''Emitter '' @ n,
                        emitter_x = x, emitter_z = z, emitter_y = draw_y d,
                        frequency = draw_frequency d, gain = draw_gain d,
                        waveform = draw_waveform d, color = draw_color d,
                        moving = draw_moving d, vx = draw_vx d, vz = draw_vz d\<rparr>
      in w\<lparr>emitterCounter := emitterCounter w + 1,
           emitters := emitters w @ [newEmitter],
           selectedEmitterId := Some ident\<rparr>)"

text \<open>
  The double-click handler, from the canvas coordinates \<open>localX\<close>, \<open>localY\<close> of the
  click (the canvas is \<open>CANVAS_SIZE\<close> wide).
\<close>

definition onCanvasDoubleClick :: "real \<Rightarrow> real \<Rightarrow> EmitterDraws \<Rightarrow> WorldState \<Rightarrow> WorldState" where
  "onCanvasDoubleClick localX localY d w =
     (let point = canvasToPoint localX localY CANVAS_SIZE
      in if \<not> collidesAt (collisionZones w) (walls w) (fst point) (snd point) EMITTER_RADIUS_M
         then addEmitter (fst point) (snd point) d w
         else w)"

text \<open>
  The \<open>Add Emitter\<close> button: \<open>addEmitter(listener.x + randomBetween(-2, 2),
  listener.z + randomBetween(-2, 2))\<close>.
\<close>

definition onAddEmitterClick :: "real \<Rightarrow> real \<Rightarrow> EmitterDraws \<Rightarrow> WorldState \<Rightarrow> WorldState" where
  "onAddEmitterClick u1 u2 d w =
     addEmitter (pose_x (listener w) + randomBetween u1 (- 2) 2)
                (pose_z (listener w) + randomBetween u2 (- 2) 2) d w"
















section \<open>AudioGraphReconciler: \<open>reconnectAudioEmitters\<close>\<close>

text \<open>
  A synthesis unit is the record of the parameter values last written to its four
  device nodes (for a ramped parameter, the target of the ramp). The device calls
  themselves are logged as operations.
\<close>

record EmitterAudioNode =
  oscillator_type :: OscillatorType
  oscillator_frequency :: jsnum
  gain_value :: real
  filter_frequency :: real
  panner_x :: real
  panner_y :: real
  panner_z :: real

datatype AudioOp = Create string | Dispose string | Retarget string

datatype AudioError = RoutingNotInitialized

text \<open>
  The refs of the component: whether \<open>audioContextRef\<close> and \<open>masterGainRef\<close> hold an
  object, the \<open>audioRunning\<close> flag, and the \<open>Map\<close> from emitter id to unit, kept in
  insertion order.
\<close>

record AudioState =
  audioContextRef :: bool
  masterGainRef :: bool
  audioRunning :: bool
  emitterNodesRef :: "(string \<times> EmitterAudioNode) list"

definition createEmitterNode :: "bool \<Rightarrow> SoundEmitter \<Rightarrow> AudioError + EmitterAudioNode" where
  "createEmitterNode master emitter =
     (if \<not> master then Inl RoutingNotInitialized
      else Inr \<lparr>oscillator_type = waveform emitter,
                oscillator_frequency = Num (frequency emitter),
                gain_value = gain emitter,
                filter_frequency = 6200,
                panner_x = emitter_x emitter, panner_y = emitter_y emitter,
                panner_z = emitter_z emitter\<rparr>)"

text \<open>First loop: dispose and delete every unit whose id is not live.\<close>

fun disposeLoop ::
  "(string \<times> EmitterAudioNode) list \<Rightarrow> string list
     \<Rightarrow> (string \<times> EmitterAudioNode) list \<times> AudioOp list" where
  "disposeLoop [] liveIds = ([], [])"
| "disposeLoop ((ident, node) # rest) liveIds =
     (let (kept, ops) = disposeLoop rest liveIds
      in if ident \<notin> set liveIds then (kept, Dispose ident # ops)
         else ((ident, node) # kept, ops))"

definition retarget ::
  "CollisionZone list \<Rightarrow> Wall list \<Rightarrow> ListenerPose \<Rightarrow> SoundEmitter \<Rightarrow> EmitterAudioNode \<Rightarrow> EmitterAudioNode" where
  "retarget zones ws l emitter existing =
     (let observed = observedFreq l emitter;
          occ = occluded zones ws l emitter
      in existing\<lparr>oscillator_type := waveform emitter,
                  oscillator_frequency := observed,
                  gain_value := (if occ then gain emitter * 0.72 else gain emitter),
                  filter_frequency := (if occ then 1500 else 7600),
                  panner_x := emitter_x emitter, panner_y := emitter_y emitter,
                  panner_z := emitter_z emitter\<rparr>)"

text \<open>
  Second loop: a unit is created for an emitter without one, and an existing unit is
  retargeted in place. A failing \<open>createEmitterNode\<close> ends the loop with its error.
\<close>

fun emitterLoop ::
  "bool \<Rightarrow> CollisionZone list \<Rightarrow> Wall list \<Rightarrow> ListenerPose \<Rightarrow> SoundEmitter list
     \<Rightarrow> (string \<times> EmitterAudioNode) list \<Rightarrow> AudioOp list
     \<Rightarrow> AudioError + ((string \<times> EmitterAudioNode) list \<times> AudioOp list)" where
  "emitterLoop master zones ws l [] nodeMap ops = Inr (nodeMap, ops)"
| "emitterLoop master zones ws l (emitter # rest) nodeMap ops =
     (case map_of nodeMap (emitter_id emitter) of
        None \<Rightarrow>
          (case createEmitterNode master emitter of
             Inl err \<Rightarrow> Inl err
           | Inr node \<Rightarrow>
               emitterLoop master zones ws l rest
                 (nodeMap @ [(emitter_id emitter, node)]) (ops @ [Create (emitter_id emitter)]))
      | Some existing \<Rightarrow>
          emitterLoop master zones ws l rest
            (map (\<lambda>(k, v). if k = emitter_id emitter
                             then (k, retarget zones ws l emitter v) else (k, v)) nodeMap)
            (ops @ [Retarget (emitter_id emitter)]))"

definition reconnectAudioEmitters ::
  "CollisionZone list \<Rightarrow> Wall list \<Rightarrow> ListenerPose \<Rightarrow> SoundEmitter list \<Rightarrow> AudioState
     \<Rightarrow> AudioError + (AudioState \<times> AudioOp list)" where
  "reconnectAudioEmitters zones ws l ems st =
     (if \<not> audioContextRef st \<or> \<not> audioRunning st then Inr (st, [])
      else
        let liveIds = map emitter_id ems;
            (kept, disposed) = disposeLoop (emitterNodesRef st) liveIds
        in case emitterLoop (masterGainRef st) zones ws l ems kept disposed of
             Inl err \<Rightarrow> Inl err
           | Inr (nodeMap, ops) \<Rightarrow> Inr (st\<lparr>emitterNodesRef := nodeMap\<rparr>, ops))"

definition isCreate :: "AudioOp \<Rightarrow> bool" where
  "isCreate op = (case op of Create i \<Rightarrow> True | _ \<Rightarrow> False)"

definition isDispose :: "AudioOp \<Rightarrow> bool" where
  "isDispose op = (case op of Dispose i \<Rightarrow> True | _ \<Rightarrow> False)"

section \<open>The occlusion tests in double arithmetic\<close>

text \<open>
  The segment tests above are written with exact arithmetic. In the program every
  \<open>+\<close>, \<open>-\<close>, \<open>*\<close> and \<open>/\<close> yields a double, the exact result rounded. Where a
  property of the tests depends on that (which sample is which point), the tests are
  taken with a rounding function \<open>rnd\<close> applied after every arithmetic operation and a
  function \<open>hyp\<close> for \<open>Math.hypot\<close>; comparisons, \<open>Math.min\<close> and \<open>Math.max\<close>
  are exact on doubles. With \<open>rnd\<close> the identity and \<open>hyp\<close> the exact hypotenuse these
  are the tests above.
\<close>

definition pointInWall_fp :: "(real \<Rightarrow> real) \<Rightarrow> Wall \<Rightarrow> real \<Rightarrow> real \<Rightarrow> bool" where
  "pointInWall_fp rnd wall px pz =
     (let left = rnd (wall_x wall - rnd (wall_width wall / 2));
          right = rnd (wall_x wall + rnd (wall_width wall / 2));
          top = rnd (wall_z wall - rnd (wall_height wall / 2));
          bottom = rnd (wall_z wall + rnd (wall_height wall / 2))
      in px \<ge> left \<and> px \<le> right \<and> pz \<ge> top \<and> pz \<le> bottom)"

definition sample_fp :: "(real \<Rightarrow> real) \<Rightarrow> real \<Rightarrow> real \<Rightarrow> nat \<Rightarrow> real" where
  "sample_fp rnd a b i =
     (let t = rnd (real i / real steps)
      in rnd (a + rnd (rnd (b - a) * t)))"

definition sampleInside_fp ::
  "(real \<Rightarrow> real) \<Rightarrow> real \<Rightarrow> real \<Rightarrow> real \<Rightarrow> real \<Rightarrow> Wall \<Rightarrow> nat \<Rightarrow> bool" where
  "sampleInside_fp rnd ax az bx bz wall i =
     pointInWall_fp rnd wall (sample_fp rnd ax bx i) (sample_fp rnd az bz i)"

function sampleLoop_fp ::
  "(real \<Rightarrow> real) \<Rightarrow> real \<Rightarrow> real \<Rightarrow> real \<Rightarrow> real \<Rightarrow> Wall \<Rightarrow> nat \<Rightarrow> bool" where
  "sampleLoop_fp rnd ax az bx bz wall i =
     (if i \<le> steps
      then (if sampleInside_fp rnd ax az bx bz wall i then True
            else sampleLoop_fp rnd ax az bx bz wall (i + 1))
      else False)"
  by pat_completeness auto
termination
  by (relation "measure (\<lambda>(rnd, ax, az, bx, bz, wall, i). Suc steps - i)") auto

declare sampleLoop_fp.simps [simp del]

definition lineIntersectsWall_fp ::
  "(real \<Rightarrow> real) \<Rightarrow> real \<Rightarrow> real \<Rightarrow> real \<Rightarrow> real \<Rightarrow> Wall \<Rightarrow> bool" where
  "lineIntersectsWall_fp rnd ax az bx bz wall = sampleLoop_fp rnd ax az bx bz wall 0"

definition abLenSq_fp :: "(real \<Rightarrow> real) \<Rightarrow> real \<Rightarrow> real \<Rightarrow> real \<Rightarrow> real \<Rightarrow> real" where
  "abLenSq_fp rnd ax az bx bz =
     (let abx = rnd (bx - ax);
          abz = rnd (bz - az)
      in rnd (rnd (abx * abx) + rnd (abz * abz)))"

definition projection_fp ::
  "(real \<Rightarrow> real) \<Rightarrow> real \<Rightarrow> real \<Rightarrow> real \<Rightarrow> real \<Rightarrow> real \<Rightarrow> real \<Rightarrow> real" where
  "projection_fp rnd ax az bx bz cx cz =
     (let abx = rnd (bx - ax);
          abz = rnd (bz - az);
          acx = rnd (cx - ax);
          acz = rnd (cz - az)
      in clamp (rnd (rnd (rnd (acx * abx) + rnd (acz * abz)) / abLenSq_fp rnd ax az bx bz)) 0 1)"

definition circleLineIntersection_fp ::
  "(real \<Rightarrow> real) \<Rightarrow> (real \<Rightarrow> real \<Rightarrow> real)
     \<Rightarrow> real \<Rightarrow> real \<Rightarrow> real \<Rightarrow> real \<Rightarrow> real \<Rightarrow> real \<Rightarrow> real \<Rightarrow> bool" where
  "circleLineIntersection_fp rnd hyp ax az bx bz cx cz radius =
     (let abx = rnd (bx - ax);
          abz = rnd (bz - az)
      in if abLenSq_fp rnd ax az bx bz < rnd (1 / 1000000)
         then hyp (rnd (cx - ax)) (rnd (cz - az)) \<le> radius
         else
           let projection = projection_fp rnd ax az bx bz cx cz;
               closestX = rnd (ax + rnd (abx * projection));
               closestZ = rnd (az + rnd (abz * projection))
           in hyp (rnd (cx - closestX)) (rnd (cz - closestZ)) \<le> radius)"

fun zoneOcclusionLoop_fp ::
  "(real \<Rightarrow> real) \<Rightarrow> (real \<Rightarrow> real \<Rightarrow> real) \<Rightarrow> CollisionZone list
     \<Rightarrow> real \<Rightarrow> real \<Rightarrow> real \<Rightarrow> real \<Rightarrow> bool" where
  "zoneOcclusionLoop_fp rnd hyp [] lx lz ex ez = False"
| "zoneOcclusionLoop_fp rnd hyp (zone # zones) lx lz ex ez =
     (if circleLineIntersection_fp rnd hyp lx lz ex ez (zone_x zone) (zone_z zone) (zone_radius zone)
      then True
      else zoneOcclusionLoop_fp rnd hyp zones lx lz ex ez)"

fun wallOcclusionLoop_fp ::
  "(real \<Rightarrow> real) \<Rightarrow> Wall list \<Rightarrow> real \<Rightarrow> real \<Rightarrow> real \<Rightarrow> real \<Rightarrow> bool" where
  "wallOcclusionLoop_fp rnd [] lx lz ex ez = False"
| "wallOcclusionLoop_fp rnd (wall # ws) lx lz ex ez =
     (if lineIntersectsWall_fp rnd lx lz ex ez wall then True
      else wallOcclusionLoop_fp rnd ws lx lz ex ez)"

definition occluded_fp ::
  "(real \<Rightarrow> real) \<Rightarrow> (real \<Rightarrow> real \<Rightarrow> real) \<Rightarrow> CollisionZone list \<Rightarrow> Wall list
     \<Rightarrow> ListenerPose \<Rightarrow> SoundEmitter \<Rightarrow> bool" where
  "occluded_fp rnd hyp zones ws l emitter =
     (let occ = zoneOcclusionLoop_fp rnd hyp zones (pose_x l) (pose_z l)
                  (emitter_x emitter) (emitter_z emitter)
      in if \<not> occ
         then wallOcclusionLoop_fp rnd ws (pose_x l) (pose_z l) (emitter_x emitter) (emitter_z emitter)
         else occ)"

text \<open>
  Rounding to the nearest double, ties to even: 53 significant bits, with the exponent
  range left unbounded (overflow and underflow are not modelled; the coordinates of the
  world are far from both).
\<close>

definition round_even :: "real \<Rightarrow> int" where
  "round_even y =
     (let f = \<lfloor>y\<rfloor>; d = y - of_int f
      in if d < 1 / 2 then f else if 1 / 2 < d then f + 1 else if even f then f else f + 1)"

definition binary64 :: "real \<Rightarrow> real" where
  "binary64 x =
     (if x = 0 then 0
      else let q = 2 powr (of_int \<lfloor>log 2 \<bar>x\<bar>\<rfloor> - 52)
           in q * of_int (round_even (x / q)))"

section \<open>Concrete configurations\<close>

text \<open>The state the component starts in (the initial values of its \<open>useState\<close> hooks and refs).\<close>

definition initialWorld :: WorldState where
  "initialWorld = \<lparr>listener = INITIAL_LISTENER, emitters = INITIAL_EMITTERS,
     collisionZones = INITIAL_ZONES, walls = INITIAL_WALLS, walkMode = True,
     movingEnabled = True, selectedEmitterId = Some ''emitter-1'', emitterCounter = 4\<rparr>"

text \<open>
  Two walls of width 1 whose rectangles, expanded by the emitter radius, leave a gap of
  0.06 m around \<open>x = 0\<close>, and the first seed emitter placed in the gap.
\<close>

definition corridorWalls :: "Wall list" where
  "corridorWalls =
     [\<lparr>wall_id = ''wall-1'', wall_x = - (22 / 25), wall_z = 0, wall_width = 1, wall_height = 4\<rparr>,
      \<lparr>wall_id = ''wall-2'', wall_x = 22 / 25, wall_z = 0, wall_width = 1, wall_height = 4\<rparr>]"

definition corridorEmitter :: SoundEmitter where
  "corridorEmitter = \<lparr>emitter_id = ''emitter-1'', emitter_name = ''Drone A'', emitter_x = 0,
      emitter_z = 0, emitter_y = 0, frequency = 470, gain = 0.16, waveform = Triangle,
      color = ''#0f8c7c'', moving = True, vx = 0.9, vz = - 0.55\<rparr>"






text \<open>
  One set of drawn emitter fields; the seed world with the listener walked to 0.5 m
  from the southern edge; three patches; and an audio state that is running and still
  holds the unit of an emitter that was removed.
\<close>

definition sampleDraws :: EmitterDraws where
  "sampleDraws = \<lparr>draw_y = 0.1, draw_frequency = 440, draw_gain = 0.15, draw_waveform = Sine,
                   draw_color = ''hsl(120 76% 52%)'', draw_moving = False, draw_vx = 0.5,
                   draw_vz = - 0.5\<rparr>"

definition edgeWorld :: WorldState where
  "edgeWorld = initialWorld\<lparr>listener := \<lparr>pose_x = 0, pose_z = - 15.5, headingDeg = 0\<rparr>\<rparr>"




definition staleAudio :: AudioState where
  "staleAudio = \<lparr>audioContextRef = True, masterGainRef = True, audioRunning = True,
     emitterNodesRef = [(''emitter-9'',
        \<lparr>oscillator_type = Sine, oscillator_frequency = Num 440, gain_value = 0.1,
         filter_frequency = 6200, panner_x = 0, panner_y = 0, panner_z = 0\<rparr>)]\<rparr>"


section \<open>Lemmas on the helpers\<close>

lemma hypot_nonneg: "0 \<le> hypot a b"
  by (simp add: hypot_def)

lemma hypot_le_iff: "hypot a b \<le> r \<longleftrightarrow> 0 \<le> r \<and> a * a + b * b \<le> r * r"
proof (cases "0 \<le> r")
  case True
  have "sqrt (a * a + b * b) \<le> r \<longleftrightarrow> a * a + b * b \<le> r * r"
    by (metis True abs_of_nonneg real_sqrt_abs2 real_sqrt_le_iff)
  with True show ?thesis by (simp add: hypot_def)
next
  case False
  with hypot_nonneg [of a b] show ?thesis by linarith
qed

lemma hypot_gt_iff: "r < hypot a b \<longleftrightarrow> r < 0 \<or> r * r < a * a + b * b"
  using hypot_le_iff [of a b r] by linarith

lemma hypot_add_le_iff: "hypot a b + r \<le> R \<longleftrightarrow> hypot a b \<le> R - r"
  by linarith

lemma hypot_add_gt_iff: "R < hypot a b + r \<longleftrightarrow> R - r < hypot a b"
  by linarith

lemma hypot_abs: "\<bar>a'\<bar> = \<bar>a\<bar> \<Longrightarrow> \<bar>b'\<bar> = \<bar>b\<bar> \<Longrightarrow> hypot a' b' = hypot a b"
proof -
  assume a: "\<bar>a'\<bar> = \<bar>a\<bar>" and b: "\<bar>b'\<bar> = \<bar>b\<bar>"
  have "a' * a' = a * a" using a by (metis abs_mult_self_eq)
  moreover have "b' * b' = b * b" using b by (metis abs_mult_self_eq)
  ultimately show ?thesis by (simp add: hypot_def)
qed

lemma clamp_bounds: "lo \<le> hi \<Longrightarrow> lo \<le> clamp v lo hi \<and> clamp v lo hi \<le> hi"
  by (simp add: clamp_def)

lemma zoneLoop_iff:
  "zoneLoop zones x z r \<longleftrightarrow>
     (\<exists>zone \<in> set zones. hypot (x - zone_x zone) (z - zone_z zone) \<le> zone_radius zone + r)"
  by (induction zones) auto

lemma wallLoop_iff:
  "wallLoop ws x z r \<longleftrightarrow> (\<exists>wall \<in> set ws. insideExpanded wall x z r)"
  by (induction ws) auto

lemma collidesAt_iff:
  "collidesAt zones ws x z r \<longleftrightarrow>
     WORLD_RADIUS_M < hypot x z + r
     \<or> (\<exists>zone \<in> set zones. hypot (x - zone_x zone) (z - zone_z zone) \<le> zone_radius zone + r)
     \<or> (\<exists>wall \<in> set ws. insideExpanded wall x z r)"
  by (auto simp: collidesAt_def zoneLoop_iff wallLoop_iff)

text \<open>Rewriting with these turns a concrete collision test into rational arithmetic.\<close>

lemmas collidesAt_eval = collidesAt_iff hypot_add_gt_iff hypot_le_iff hypot_gt_iff

subsection \<open>The listener step\<close>

lemma moveListener_cases:
  "(pose_x (moveListener zones ws f s t d cur), pose_z (moveListener zones ws f s t d cur))
     \<in> {(desiredX f s t d cur, desiredZ f s t d cur),
         (desiredX f s t d cur, pose_z cur),
         (pose_x cur, desiredZ f s t d cur),
         (pose_x cur, pose_z cur)}"
  by (simp add: moveListener_def Let_def)

lemma moveListener_free:
  "\<not> collidesAt zones ws (pose_x cur) (pose_z cur) PLAYER_RADIUS_M \<Longrightarrow>
   \<not> collidesAt zones ws (pose_x (moveListener zones ws f s t d cur))
                          (pose_z (moveListener zones ws f s t d cur)) PLAYER_RADIUS_M"
  by (simp add: moveListener_def Let_def)

lemma tick_zones [simp]: "collisionZones (tick keys p n w) = collisionZones w"
  by (simp add: tick_def Let_def)

lemma tick_walls [simp]: "walls (tick keys p n w) = walls w"
  by (simp add: tick_def Let_def)

lemma tick_listener_cases:
  "listener (tick keys p n w) = listener w
   \<or> (\<exists>f s t. listener (tick keys p n w) =
          moveListener (collisionZones w) (walls w) f s t (tickDelta p n) (listener w))"
  by (auto simp: tick_def Let_def)

lemma wrapDegrees_0 [simp]: "wrapDegrees 0 = 0"
  by (simp add: wrapDegrees_def js_rem_def js_trunc_def)

lemma initial_free: "\<not> collidesAt INITIAL_ZONES INITIAL_WALLS 0 0 PLAYER_RADIUS_M"
  unfolding collidesAt_eval
  by (simp add: INITIAL_ZONES_def INITIAL_WALLS_def PLAYER_RADIUS_M_def WORLD_RADIUS_M_def
                insideExpanded_def)

lemma initial_forward_free:
  "\<not> collidesAt INITIAL_ZONES INITIAL_WALLS 0 (- (11 / 100)) PLAYER_RADIUS_M"
  unfolding collidesAt_eval
  by (simp add: INITIAL_ZONES_def INITIAL_WALLS_def PLAYER_RADIUS_M_def WORLD_RADIUS_M_def
                insideExpanded_def)

text \<open>
  A tick of 100 ms with only \<open>w\<close> held, from the origin at heading 0, when the point
  \<open>(0, -0.11)\<close> is free.
\<close>

lemma tick_forward_value:
  assumes walk: "walkMode w"
    and pose: "listener w = \<lparr>pose_x = 0, pose_z = 0, headingDeg = 0\<rparr>"
    and elapsed: "now - previous = 100"
    and free: "\<not> collidesAt (collisionZones w) (walls w) 0 (- (11 / 100)) PLAYER_RADIUS_M"
  shows "listener (tick {''w''} previous now w) = \<lparr>pose_x = 0, pose_z = - (11 / 100), headingDeg = 0\<rparr>"
proof -
  have d: "tickDelta previous now = 1 / 25" by (simp add: tickDelta_def elapsed)
  have nh: "nextHeading 0 (tickDelta previous now) (listener w) = 0"
    by (simp add: nextHeading_def pose)
  have dx: "desiredX 1 0 0 (tickDelta previous now) (listener w) = 0"
    unfolding desiredX_def nh by (simp add: toRadians_def pose)
  have dz: "desiredZ 1 0 0 (tickDelta previous now) (listener w) = - (11 / 100)"
    unfolding desiredZ_def nh by (simp add: d toRadians_def pose MOVE_SPEED_MPS_def)
  have m: "moveListener (collisionZones w) (walls w) 1 0 0 (tickDelta previous now) (listener w)
             = \<lparr>pose_x = 0, pose_z = - (11 / 100), headingDeg = 0\<rparr>"
    by (simp add: moveListener_def Let_def nh dx dz free)
  show ?thesis
    unfolding tick_def Let_def
    by (simp add: held_def walk m)
qed

subsection \<open>The emitter step\<close>

lemma moveEmitter_abs:
  "\<bar>vx (moveEmitter zones ws delta e)\<bar> = \<bar>vx e\<bar> \<and> \<bar>vz (moveEmitter zones ws delta e)\<bar> = \<bar>vz e\<bar>"
  by (simp add: moveEmitter_def Let_def)

lemma corridor_facts:
  "collidesAt [] corridorWalls (9 / 250) (- (11 / 500)) EMITTER_RADIUS_M"
  "collidesAt [] corridorWalls (9 / 250) 0 EMITTER_RADIUS_M"
  "\<not> collidesAt [] corridorWalls 0 (- (11 / 500)) EMITTER_RADIUS_M"
  "collidesAt [] corridorWalls (- (9 / 250)) (- (11 / 500)) EMITTER_RADIUS_M"
  unfolding collidesAt_eval
  by (simp_all add: corridorWalls_def EMITTER_RADIUS_M_def WORLD_RADIUS_M_def insideExpanded_def)

lemma one_wall_facts:
  "collidesAt [] (tl corridorWalls) (9 / 250) (- (11 / 500)) EMITTER_RADIUS_M"
  "collidesAt [] (tl corridorWalls) (9 / 250) 0 EMITTER_RADIUS_M"
  "\<not> collidesAt [] (tl corridorWalls) 0 (- (11 / 500)) EMITTER_RADIUS_M"
  "\<not> collidesAt [] (tl corridorWalls) (- (9 / 250)) (- (11 / 500)) EMITTER_RADIUS_M"
  unfolding collidesAt_eval
  by (simp_all add: corridorWalls_def EMITTER_RADIUS_M_def WORLD_RADIUS_M_def insideExpanded_def)

subsection \<open>The Doppler step\<close>

lemma js_clamp_Num: "js_clamp (Num v) lo hi = Num (clamp v lo hi)"
  by (simp add: js_clamp_def clamp_def)

lemma js_clamp_PosInf: "js_clamp PosInf lo hi = Num hi"
  by (simp add: js_clamp_def)

subsection \<open>The segment tests\<close>

lemma sampleLoop_iff:
  "sampleLoop ax az bx bz wall i \<longleftrightarrow> (\<exists>k. i \<le> k \<and> k \<le> steps \<and> sampleInside ax az bx bz wall k)"
proof (induction ax az bx bz wall i rule: sampleLoop.induct)
  case (1 ax az bx bz wall i)
  show ?case
  proof (cases "i \<le> steps")
    case False
    then show ?thesis by (subst sampleLoop.simps) auto
  next
    case True
    show ?thesis
    proof (cases "sampleInside ax az bx bz wall i")
      case inside: True
      with True show ?thesis by (subst sampleLoop.simps) auto
    next
      case outside: False
      have "sampleLoop ax az bx bz wall i = sampleLoop ax az bx bz wall (i + 1)"
        using True outside by (subst sampleLoop.simps) simp
      also have "\<dots> \<longleftrightarrow> (\<exists>k. i + 1 \<le> k \<and> k \<le> steps \<and> sampleInside ax az bx bz wall k)"
        using "1.IH" [OF True outside] .
      also have "\<dots> \<longleftrightarrow> (\<exists>k. i \<le> k \<and> k \<le> steps \<and> sampleInside ax az bx bz wall k)"
        using outside by (metis Suc_eq_plus1 Suc_leD Suc_le_eq le_neq_implies_less)
      finally show ?thesis .
    qed
  qed
qed

lemma lineIntersectsWall_iff:
  "lineIntersectsWall ax az bx bz wall \<longleftrightarrow> (\<exists>k \<le> steps. sampleInside ax az bx bz wall k)"
  by (simp add: lineIntersectsWall_def sampleLoop_iff)











lemma zoneOcclusionLoop_iff:
  "zoneOcclusionLoop zones lx lz ex ez \<longleftrightarrow>
     (\<exists>zone \<in> set zones. circleLineIntersection lx lz ex ez (zone_x zone) (zone_z zone) (zone_radius zone))"
  by (induction zones) auto

lemma wallOcclusionLoop_iff:
  "wallOcclusionLoop ws lx lz ex ez \<longleftrightarrow> (\<exists>wall \<in> set ws. lineIntersectsWall lx lz ex ez wall)"
  by (induction ws) auto

lemma occluded_iff:
  "occluded zones ws l e \<longleftrightarrow>
     (\<exists>zone \<in> set zones. circleLineIntersection (pose_x l) (pose_z l) (emitter_x e) (emitter_z e)
                             (zone_x zone) (zone_z zone) (zone_radius zone))
     \<or> (\<exists>wall \<in> set ws. lineIntersectsWall (pose_x l) (pose_z l) (emitter_x e) (emitter_z e) wall)"
  by (auto simp: occluded_def Let_def zoneOcclusionLoop_iff wallOcclusionLoop_iff)





subsection \<open>Adding emitters\<close>

lemma canvasToPoint_pointToCanvas:
  "canvasToPoint (fst (pointToCanvas x z CANVAS_SIZE)) (snd (pointToCanvas x z CANVAS_SIZE)) CANVAS_SIZE
     = (clamp x (- WORLD_RADIUS_M) WORLD_RADIUS_M, clamp z (- WORLD_RADIUS_M) WORLD_RADIUS_M)"
  by (simp add: canvasToPoint_def pointToCanvas_def Let_def CANVAS_SIZE_def WORLD_RADIUS_M_def)

lemma hypot_ge_fst: "\<bar>a\<bar> \<le> hypot a b"
  unfolding hypot_le_iff [of _ _ "\<bar>a\<bar>"] hypot_def
  by (metis abs_ge_zero add.commute le_add_same_cancel1 real_sqrt_abs2 real_sqrt_le_iff zero_le_square)

lemma hypot_commute: "hypot a b = hypot b a"
  by (simp add: hypot_def add.commute)

lemma hypot_clamp_far:
  assumes "hypot x z = 33 / 2"
  shows "313 / 20 < hypot (clamp x (- 16) 16) (clamp z (- 16) 16)"
proof (cases "\<bar>x\<bar> \<le> 16 \<and> \<bar>z\<bar> \<le> 16")
  case True
  then have "clamp x (- 16) 16 = x" "clamp z (- 16) 16 = z"
    by (auto simp: clamp_def)
  with assms show ?thesis by simp
next
  case False
  then have "\<bar>clamp x (- 16) 16\<bar> = 16 \<or> \<bar>clamp z (- 16) 16\<bar> = 16"
    by (auto simp: clamp_def)
  with hypot_ge_fst [of "clamp x (- 16) 16" "clamp z (- 16) 16"]
       hypot_ge_fst [of "clamp z (- 16) 16" "clamp x (- 16) 16"]
       hypot_commute [of "clamp x (- 16) 16" "clamp z (- 16) 16"]
  show ?thesis by linarith
qed

lemma hypot_axis: "hypot a 0 = \<bar>a\<bar>" "hypot 0 a = \<bar>a\<bar>"
  by (simp_all add: hypot_def)

subsection \<open>Patching\<close>








subsection \<open>Reconciliation\<close>

lemma disposeLoop_eq:
  "disposeLoop m live =
     (filter (\<lambda>(k, v). k \<in> set live) m,
      map Dispose (filter (\<lambda>k. k \<notin> set live) (map fst m)))"
  by (induction m) (auto simp: Let_def split: prod.splits)

lemma keys_retarget:
  "map fst (map (\<lambda>(k, v). if k = i then (k, f v) else (k, v)) m) = map fst m"
  by (induction m) auto

lemma emitterLoop_ok:
  "\<exists>m' ops'. emitterLoop True zones ws l ems m ops = Inr (m', ops')
      \<and> set (map fst m') = set (map fst m) \<union> emitter_id ` set ems
      \<and> (distinct (map fst m) \<longrightarrow> distinct (map fst m'))"
proof (induction ems arbitrary: m ops)
  case Nil
  then show ?case by simp
next
  case (Cons e rest)
  show ?case
  proof (cases "map_of m (emitter_id e)")
    case None
    then have fresh: "emitter_id e \<notin> set (map fst m)"
      by (simp add: map_of_eq_None_iff)
    let ?node = "\<lparr>oscillator_type = waveform e, oscillator_frequency = Num (frequency e),
                  gain_value = gain e, filter_frequency = 6200,
                  panner_x = emitter_x e, panner_y = emitter_y e, panner_z = emitter_z e\<rparr>"
    let ?m = "m @ [(emitter_id e, ?node)]"
    have step: "emitterLoop True zones ws l (e # rest) m ops
                  = emitterLoop True zones ws l rest ?m (ops @ [Create (emitter_id e)])"
      using None by (simp add: createEmitterNode_def)
    from Cons.IH [of ?m "ops @ [Create (emitter_id e)]"]
    obtain m' ops' where r: "emitterLoop True zones ws l rest ?m (ops @ [Create (emitter_id e)]) = Inr (m', ops')"
      and k: "set (map fst m') = set (map fst ?m) \<union> emitter_id ` set rest"
      and d: "distinct (map fst ?m) \<longrightarrow> distinct (map fst m')"
      by blast
    from fresh have "distinct (map fst m) \<longrightarrow> distinct (map fst ?m)" by simp
    with d have d': "distinct (map fst m) \<longrightarrow> distinct (map fst m')" by blast
    from k have k': "set (map fst m') = set (map fst m) \<union> emitter_id ` set (e # rest)" by auto
    from step r k' d' show ?thesis by simp
  next
    case (Some existing)
    then have present: "emitter_id e \<in> set (map fst m)"
      by (metis map_of_eq_None_iff option.distinct(1) set_map)
    let ?m = "map (\<lambda>(k, v). if k = emitter_id e then (k, retarget zones ws l e v) else (k, v)) m"
    have step: "emitterLoop True zones ws l (e # rest) m ops
                  = emitterLoop True zones ws l rest ?m (ops @ [Retarget (emitter_id e)])"
      using Some by simp
    have keys: "map fst ?m = map fst m" by (rule keys_retarget)
    from Cons.IH [of ?m "ops @ [Retarget (emitter_id e)]"]
    obtain m' ops' where r: "emitterLoop True zones ws l rest ?m (ops @ [Retarget (emitter_id e)]) = Inr (m', ops')"
      and k: "set (map fst m') = set (map fst ?m) \<union> emitter_id ` set rest"
      and d: "distinct (map fst ?m) \<longrightarrow> distinct (map fst m')"
      by blast
    from k present have k': "set (map fst m') = set (map fst m) \<union> emitter_id ` set (e # rest)"
      unfolding keys by auto
    from d have d': "distinct (map fst m) \<longrightarrow> distinct (map fst m')" unfolding keys .
    from step r k' d' show ?thesis by simp
  qed
qed

lemma emitterLoop_present:
  "emitter_id ` set ems \<subseteq> set (map fst m) \<Longrightarrow>
   \<exists>m'. emitterLoop master zones ws l ems m ops
           = Inr (m', ops @ map (\<lambda>e. Retarget (emitter_id e)) ems)
        \<and> map fst m' = map fst m"
proof (induction ems arbitrary: m ops)
  case Nil
  then show ?case by simp
next
  case (Cons e rest)
  from Cons.prems have "emitter_id e \<in> set (map fst m)" by simp
  then obtain existing where Some: "map_of m (emitter_id e) = Some existing"
    by (metis map_of_eq_None_iff not_None_eq set_map)
  let ?m = "map (\<lambda>(k, v). if k = emitter_id e then (k, retarget zones ws l e v) else (k, v)) m"
  have keys: "map fst ?m = map fst m" by (rule keys_retarget)
  have step: "emitterLoop master zones ws l (e # rest) m ops
                = emitterLoop master zones ws l rest ?m (ops @ [Retarget (emitter_id e)])"
    using Some by simp
  from Cons.prems have "emitter_id ` set rest \<subseteq> set (map fst ?m)" unfolding keys by simp
  from Cons.IH [OF this, of "ops @ [Retarget (emitter_id e)]"]
  obtain m' where "emitterLoop master zones ws l rest ?m (ops @ [Retarget (emitter_id e)])
           = Inr (m', (ops @ [Retarget (emitter_id e)]) @ map (\<lambda>e. Retarget (emitter_id e)) rest)"
    and "map fst m' = map fst ?m"
    by blast
  with step keys show ?case by simp
qed

lemma reconnect_first:
  assumes "audioContextRef st" "masterGainRef st" "audioRunning st"
  shows "\<exists>st' ops. reconnectAudioEmitters zones ws l ems st = Inr (st', ops)
           \<and> audioContextRef st' \<and> masterGainRef st' \<and> audioRunning st'
           \<and> set (map fst (emitterNodesRef st')) = emitter_id ` set ems
           \<and> (distinct (map fst (emitterNodesRef st)) \<longrightarrow> distinct (map fst (emitterNodesRef st')))"
proof -
  let ?kept = "filter (\<lambda>(k, v). k \<in> set (map emitter_id ems)) (emitterNodesRef st)"
  let ?disposed = "map Dispose (filter (\<lambda>k. k \<notin> set (map emitter_id ems)) (map fst (emitterNodesRef st)))"
  from emitterLoop_ok [of zones ws l ems ?kept ?disposed]
  obtain m' ops' where r: "emitterLoop True zones ws l ems ?kept ?disposed = Inr (m', ops')"
    and k: "set (map fst m') = set (map fst ?kept) \<union> emitter_id ` set ems"
    and d: "distinct (map fst ?kept) \<longrightarrow> distinct (map fst m')"
    by blast
  have "set (map fst ?kept) \<subseteq> emitter_id ` set ems" by auto
  with k have k': "set (map fst m') = emitter_id ` set ems" by blast
  have "distinct (map fst (emitterNodesRef st)) \<longrightarrow> distinct (map fst ?kept)"
    by (simp add: distinct_map_filter)
  with d have d': "distinct (map fst (emitterNodesRef st)) \<longrightarrow> distinct (map fst m')" by blast
  have "reconnectAudioEmitters zones ws l ems st = Inr (st\<lparr>emitterNodesRef := m'\<rparr>, ops')"
    using assms r by (simp add: reconnectAudioEmitters_def disposeLoop_eq)
  with assms k' d' show ?thesis by simp
qed

lemma filter_all: "(\<And>x. x \<in> set xs \<Longrightarrow> P x) \<Longrightarrow> filter P xs = xs"
  by (induction xs) auto

lemma reconnect_again:
  assumes "audioContextRef st" "audioRunning st"
    and keys: "set (map fst (emitterNodesRef st)) = emitter_id ` set ems"
  shows "\<exists>st'. reconnectAudioEmitters zones ws l ems st
                  = Inr (st', map (\<lambda>e. Retarget (emitter_id e)) ems)
           \<and> map fst (emitterNodesRef st') = map fst (emitterNodesRef st)"
proof -
  have kept: "filter (\<lambda>(k, v). k \<in> emitter_id ` set ems) (emitterNodesRef st) = emitterNodesRef st"
    using keys by (intro filter_all) force
  have disposed: "filter (\<lambda>k. k \<notin> emitter_id ` set ems) (map fst (emitterNodesRef st)) = []"
    using keys by (auto simp: filter_empty_conv)
  have "emitter_id ` set ems \<subseteq> set (map fst (emitterNodesRef st))" using keys by simp
  from emitterLoop_present [OF this, of "masterGainRef st" zones ws l "[]"]
  obtain m' where r: "emitterLoop (masterGainRef st) zones ws l ems (emitterNodesRef st) []
           = Inr (m', map (\<lambda>e. Retarget (emitter_id e)) ems)"
    and k: "map fst m' = map fst (emitterNodesRef st)"
    by auto
  have "reconnectAudioEmitters zones ws l ems st
          = Inr (st\<lparr>emitterNodesRef := m'\<rparr>, map (\<lambda>e. Retarget (emitter_id e)) ems)"
    using assms(1,2) r by (simp add: reconnectAudioEmitters_def disposeLoop_eq kept disposed)
  with k show ?thesis by simp
qed

subsection \<open>The tests in double arithmetic\<close>

lemma sampleLoop_fp_iff:
  "sampleLoop_fp rnd ax az bx bz wall i
     \<longleftrightarrow> (\<exists>k. i \<le> k \<and> k \<le> steps \<and> sampleInside_fp rnd ax az bx bz wall k)"
proof (induction rnd ax az bx bz wall i rule: sampleLoop_fp.induct)
  case (1 rnd ax az bx bz wall i)
  show ?case
  proof (cases "i \<le> steps")
    case False
    then show ?thesis by (subst sampleLoop_fp.simps) auto
  next
    case True
    show ?thesis
    proof (cases "sampleInside_fp rnd ax az bx bz wall i")
      case inside: True
      with True show ?thesis by (subst sampleLoop_fp.simps) auto
    next
      case outside: False
      have "sampleLoop_fp rnd ax az bx bz wall i = sampleLoop_fp rnd ax az bx bz wall (i + 1)"
        using True outside by (subst sampleLoop_fp.simps) simp
      also have "\<dots> \<longleftrightarrow> (\<exists>k. i + 1 \<le> k \<and> k \<le> steps \<and> sampleInside_fp rnd ax az bx bz wall k)"
        using "1.IH" [OF True outside] .
      also have "\<dots> \<longleftrightarrow> (\<exists>k. i \<le> k \<and> k \<le> steps \<and> sampleInside_fp rnd ax az bx bz wall k)"
        using outside by (metis Suc_eq_plus1 Suc_leD Suc_le_eq le_neq_implies_less)
      finally show ?thesis .
    qed
  qed
qed

lemma lineIntersectsWall_fp_iff:
  "lineIntersectsWall_fp rnd ax az bx bz wall \<longleftrightarrow> (\<exists>k \<le> steps. sampleInside_fp rnd ax az bx bz wall k)"
  by (simp add: lineIntersectsWall_fp_def sampleLoop_fp_iff)





lemma zoneOcclusionLoop_fp_iff:
  "zoneOcclusionLoop_fp rnd hyp zones lx lz ex ez \<longleftrightarrow>
     (\<exists>zone \<in> set zones. circleLineIntersection_fp rnd hyp lx lz ex ez
                             (zone_x zone) (zone_z zone) (zone_radius zone))"
  by (induction zones) auto

lemma wallOcclusionLoop_fp_iff:
  "wallOcclusionLoop_fp rnd ws lx lz ex ez
     \<longleftrightarrow> (\<exists>wall \<in> set ws. lineIntersectsWall_fp rnd lx lz ex ez wall)"
  by (induction ws) auto

lemma occluded_fp_iff:
  "occluded_fp rnd hyp zones ws l e \<longleftrightarrow>
     (\<exists>zone \<in> set zones. circleLineIntersection_fp rnd hyp (pose_x l) (pose_z l)
                             (emitter_x e) (emitter_z e) (zone_x zone) (zone_z zone) (zone_radius zone))
     \<or> (\<exists>wall \<in> set ws. lineIntersectsWall_fp rnd (pose_x l) (pose_z l)
                             (emitter_x e) (emitter_z e) wall)"
  by (auto simp: occluded_fp_def Let_def zoneOcclusionLoop_fp_iff wallOcclusionLoop_fp_iff)

text \<open>With no rounding and the exact hypotenuse the rounded tests are the exact ones.\<close>

lemma sampleInside_fp_exact:
  "sampleInside_fp (\<lambda>x. x) ax az bx bz wall i = sampleInside ax az bx bz wall i"
  by (simp add: sampleInside_fp_def sample_fp_def pointInWall_fp_def sampleInside_def Let_def)

lemma lineIntersectsWall_fp_exact:
  "lineIntersectsWall_fp (\<lambda>x. x) ax az bx bz wall = lineIntersectsWall ax az bx bz wall"
  by (simp add: lineIntersectsWall_fp_iff lineIntersectsWall_iff sampleInside_fp_exact)

lemma circleLineIntersection_fp_exact:
  "circleLineIntersection_fp (\<lambda>x. x) hypot ax az bx bz cx cz radius
     = circleLineIntersection ax az bx bz cx cz radius"
  by (simp add: circleLineIntersection_fp_def circleLineIntersection_def abLenSq_fp_def
                projection_fp_def Let_def)

lemma occluded_fp_exact:
  "occluded_fp (\<lambda>x. x) hypot zones ws l e = occluded zones ws l e"
  by (simp add: occluded_fp_iff occluded_iff lineIntersectsWall_fp_exact circleLineIntersection_fp_exact)


subsection \<open>Rounding to the nearest double\<close>


lemma round_even_of_int [simp]: "round_even (of_int k) = k"
  by (simp add: round_even_def)

lemma binary64_0 [simp]: "binary64 0 = 0"
  by (simp add: binary64_def)


lemma floor_log2:
  assumes "2 ^ n \<le> y" "y < 2 ^ (n + 1)"
  shows "\<lfloor>log 2 y\<rfloor> = int n"
proof -
  have ypos: "0 < y" using assms(1) by (smt (verit) zero_less_power)
  have l: "log 2 (2 ^ k) = real k" for k :: nat
    by (simp add: log_nat_power)
  have "real n \<le> log 2 y"
    using assms(1) ypos l [of n] by (metis log_le_cancel_iff one_less_numeral_iff semiring_norm(76) zero_less_numeral zero_less_power)
  moreover have "log 2 y < real (n + 1)"
    using assms(2) ypos l [of "n + 1"] by (metis log_less_cancel_iff one_less_numeral_iff semiring_norm(76) zero_less_numeral zero_less_power)
  ultimately show ?thesis by (intro floor_unique) simp_all
qed

lemma binary64_eval:
  assumes "2 ^ n \<le> \<bar>x\<bar>" "\<bar>x\<bar> < 2 ^ (n + 1)" "n \<le> 52"
  shows "binary64 x = of_int (round_even (x * 2 ^ (52 - n))) / 2 ^ (52 - n)"
proof -
  have nz: "x \<noteq> 0" using assms(1) by (smt (verit) abs_zero zero_less_power)
  have f: "\<lfloor>log 2 \<bar>x\<bar>\<rfloor> = int n" by (rule floor_log2 [OF assms(1,2)])
  have "(2::real) powr (real n - 52) = 2 powr real n / 2 powr 52"
    by (simp add: powr_diff)
  also have "\<dots> = 2 ^ n / 2 ^ 52" by (simp add: powr_realpow)
  also have "\<dots> = 1 / 2 ^ (52 - n)"
    using assms(3) by (simp add: power_diff)
  finally have q: "(2::real) powr (real n - 52) = 1 / 2 ^ (52 - n)" .
  show ?thesis using nz by (simp add: binary64_def f q Let_def)
qed










lemma double_ints: "binary64 (- 15) = - 15" "binary64 (- 1) = - 1" "binary64 1 = 1"
  by (subst binary64_eval [where n = 3], simp_all add: round_even_def)
     (subst binary64_eval [where n = 0], simp_all add: round_even_def)+









text \<open>
  The samples of the segment from the listener at (-15, -1) to an emitter at
  (1.4000000000000004, -1), strictly inside the second seed wall: the last sample is
  1.3999999999999986, left of the wall's edge 1.4, and the earlier samples are further left.
\<close>

lemma sample_z: "sample_fp binary64 (- 1) (- 1) k = - 1"
  by (simp add: sample_fp_def double_ints)













section \<open>Claims\<close>

text \<open>
  C1. From a listener position that does not collide, one tick leaves the listener at a
  position that does not collide, whatever the held keys, the two timestamps, the
  zones and the walls; and the listener step, for any intent and any \<open>dt\<close>, ends at
  the desired position, at a slide holding Z fixed, at a slide holding X fixed, or at
  the old position.
\<close>

theorem tick_listener_slide_or_reject:
  assumes "\<not> collidesAt (collisionZones w) (walls w)
               (pose_x (listener w)) (pose_z (listener w)) PLAYER_RADIUS_M"
  shows "\<not> collidesAt (collisionZones (tick keys previous now w)) (walls (tick keys previous now w))
             (pose_x (listener (tick keys previous now w)))
             (pose_z (listener (tick keys previous now w))) PLAYER_RADIUS_M
         \<and> \<not> collidesAt (collisionZones w) (walls w)
             (pose_x (moveListener (collisionZones w) (walls w) forward strafe turn delta (listener w)))
             (pose_z (moveListener (collisionZones w) (walls w) forward strafe turn delta (listener w)))
             PLAYER_RADIUS_M
         \<and> (pose_x (moveListener (collisionZones w) (walls w) forward strafe turn delta (listener w)),
            pose_z (moveListener (collisionZones w) (walls w) forward strafe turn delta (listener w)))
           \<in> {(desiredX forward strafe turn delta (listener w), desiredZ forward strafe turn delta (listener w)),
               (desiredX forward strafe turn delta (listener w), pose_z (listener w)),
               (pose_x (listener w), desiredZ forward strafe turn delta (listener w)),
               (pose_x (listener w), pose_z (listener w))}"
proof (intro conjI)
  show "\<not> collidesAt (collisionZones (tick keys previous now w)) (walls (tick keys previous now w))
             (pose_x (listener (tick keys previous now w)))
             (pose_z (listener (tick keys previous now w))) PLAYER_RADIUS_M"
    using assms moveListener_free [OF assms] tick_listener_cases [of keys previous now w]
    by auto
next
  show "\<not> collidesAt (collisionZones w) (walls w)
             (pose_x (moveListener (collisionZones w) (walls w) forward strafe turn delta (listener w)))
             (pose_z (moveListener (collisionZones w) (walls w) forward strafe turn delta (listener w)))
             PLAYER_RADIUS_M"
    by (rule moveListener_free [OF assms])
next
  show "(pose_x (moveListener (collisionZones w) (walls w) forward strafe turn delta (listener w)),
            pose_z (moveListener (collisionZones w) (walls w) forward strafe turn delta (listener w)))
           \<in> {(desiredX forward strafe turn delta (listener w), desiredZ forward strafe turn delta (listener w)),
               (desiredX forward strafe turn delta (listener w), pose_z (listener w)),
               (pose_x (listener w), desiredZ forward strafe turn delta (listener w)),
               (pose_x (listener w), pose_z (listener w))}"
    by (rule moveListener_cases)
qed

theorem tick_listener_slide_or_reject_witness:
  "\<not> collidesAt (collisionZones initialWorld) (walls initialWorld)
       (pose_x (listener initialWorld)) (pose_z (listener initialWorld)) PLAYER_RADIUS_M
   \<and> \<not> collidesAt INITIAL_ZONES INITIAL_WALLS
       (pose_x (listener (tick {''w'', ''d''} 0 16 initialWorld)))
       (pose_z (listener (tick {''w'', ''d''} 0 16 initialWorld))) PLAYER_RADIUS_M"
proof -
  have h: "\<not> collidesAt (collisionZones initialWorld) (walls initialWorld)
       (pose_x (listener initialWorld)) (pose_z (listener initialWorld)) PLAYER_RADIUS_M"
    using initial_free by (simp add: initialWorld_def INITIAL_LISTENER_def)
  from tick_listener_slide_or_reject [OF h, of "{''w'', ''d''}" 0 16 1 1 0 "2 / 125"]
  have "\<not> collidesAt (collisionZones initialWorld) (walls initialWorld)
       (pose_x (listener (tick {''w'', ''d''} 0 16 initialWorld)))
       (pose_z (listener (tick {''w'', ''d''} 0 16 initialWorld))) PLAYER_RADIUS_M"
    by simp
  then have "\<not> collidesAt INITIAL_ZONES INITIAL_WALLS
       (pose_x (listener (tick {''w'', ''d''} 0 16 initialWorld)))
       (pose_z (listener (tick {''w'', ''d''} 0 16 initialWorld))) PLAYER_RADIUS_M"
    by (simp add: initialWorld_def)
  with h show ?thesis by simp
qed

text \<open>
  C2. \<open>collidesAt(x, z, r)\<close> is false exactly when the point expanded by \<open>r\<close> stays
  within the world disk of radius 16, its distance to every zone centre is greater than
  the zone radius plus \<open>r\<close>, and it lies outside every wall rectangle expanded by \<open>r\<close>
  on all four sides. The function is total: it is a HOL function with a value at
  every input.
\<close>

theorem collidesAt_false_iff:
  "collidesAt zones ws x z r = False \<longleftrightarrow>
     hypot x z + r \<le> 16
     \<and> (\<forall>zone \<in> set zones. hypot (x - zone_x zone) (z - zone_z zone) > zone_radius zone + r)
     \<and> (\<forall>wall \<in> set ws.
          \<not> (wall_x wall - wall_width wall / 2 - r \<le> x \<and> x \<le> wall_x wall + wall_width wall / 2 + r
             \<and> wall_z wall - wall_height wall / 2 - r \<le> z \<and> z \<le> wall_z wall + wall_height wall / 2 + r))"
  by (simp add: collidesAt_def WORLD_RADIUS_M_def zoneLoop_iff wallLoop_iff insideExpanded_def
                Let_def not_le not_less)

theorem collidesAt_false_iff_witness:
  "collidesAt INITIAL_ZONES INITIAL_WALLS 0 0 PLAYER_RADIUS_M = False"
  using collidesAt_false_iff [of INITIAL_ZONES INITIAL_WALLS 0 0 PLAYER_RADIUS_M]
  unfolding hypot_add_le_iff hypot_le_iff hypot_gt_iff
  by (simp add: INITIAL_ZONES_def INITIAL_WALLS_def PLAYER_RADIUS_M_def)

text \<open>
  C3. For an emitter with positive frequency, the observed frequency of the Doppler
  step is a finite number between 0.6 and 1.8 times the frequency, for every listener
  and emitter position and every emitter velocity, also when the closing speed equals
  or exceeds \<open>SOUND_SPEED_MPS\<close>: it is never an infinity, never NaN, never zero
  or negative.
\<close>

theorem observedFreq_bounded:
  assumes "frequency emitter > 0"
  shows "\<exists>f. observedFreq l emitter = Num f
             \<and> frequency emitter * 0.6 \<le> f \<and> f \<le> frequency emitter * 1.8 \<and> 0 < f"
proof -
  have lo: "0 < frequency emitter * 0.6"
    using assms by simp
  have le: "frequency emitter * 0.6 \<le> frequency emitter * 1.8"
    using assms by simp
  show ?thesis
  proof (cases "SOUND_SPEED_MPS - towardListener l emitter = 0")
    case True
    have "js_div SOUND_SPEED_MPS (SOUND_SPEED_MPS - towardListener l emitter) = PosInf"
      unfolding True by (simp add: js_div_def SOUND_SPEED_MPS_def)
    then have o: "observedFreq l emitter = Num (frequency emitter * 1.8)"
      unfolding observedFreq_def using assms by (simp add: js_clamp_PosInf)
    have "frequency emitter * 0.6 \<le> frequency emitter * 1.8
          \<and> frequency emitter * 1.8 \<le> frequency emitter * 1.8
          \<and> 0 < frequency emitter * 1.8"
      using lo le by linarith
    with o show ?thesis by blast
  next
    case False
    define f where "f = clamp (frequency emitter
          * (SOUND_SPEED_MPS / (SOUND_SPEED_MPS - towardListener l emitter)))
          (frequency emitter * 0.6) (frequency emitter * 1.8)"
    have "js_div SOUND_SPEED_MPS (SOUND_SPEED_MPS - towardListener l emitter)
            = Num (SOUND_SPEED_MPS / (SOUND_SPEED_MPS - towardListener l emitter))"
      using False by (simp only: js_div_def if_False if_True not_False_eq_True)
    then have o: "observedFreq l emitter = Num f"
      unfolding observedFreq_def f_def by (simp only: js_mul.simps js_clamp_Num)
    have b: "frequency emitter * 0.6 \<le> f \<and> f \<le> frequency emitter * 1.8"
      unfolding f_def by (rule clamp_bounds [OF le])
    with lo have "0 < f" by linarith
    with o b show ?thesis by blast
  qed
qed

text \<open>
  An emitter 1 m from the listener that closes on it at exactly the propagation speed:
  the divisor of the step is zero and the result is the upper clamp bound.
\<close>

theorem observedFreq_bounded_witness:
  "frequency (corridorEmitter\<lparr>emitter_x := - 1, vx := 343, vz := 0\<rparr>) > 0
   \<and> observedFreq INITIAL_LISTENER (corridorEmitter\<lparr>emitter_x := - 1, vx := 343, vz := 0\<rparr>)
       = Num 846"
proof -
  have h: "frequency (corridorEmitter\<lparr>emitter_x := - 1, vx := 343, vz := 0\<rparr>) > 0"
    by (simp add: corridorEmitter_def)
  have t: "towardListener INITIAL_LISTENER (corridorEmitter\<lparr>emitter_x := - 1, vx := 343, vz := 0\<rparr>) = 343"
    by (simp add: towardListener_def INITIAL_LISTENER_def corridorEmitter_def hypot_def)
  from observedFreq_bounded [OF h, of INITIAL_LISTENER]
  obtain f where "observedFreq INITIAL_LISTENER (corridorEmitter\<lparr>emitter_x := - 1, vx := 343, vz := 0\<rparr>) = Num f"
    by blast
  moreover have "observedFreq INITIAL_LISTENER (corridorEmitter\<lparr>emitter_x := - 1, vx := 343, vz := 0\<rparr>) = Num 846"
    by (simp add: observedFreq_def t js_div_def SOUND_SPEED_MPS_def js_clamp_PosInf)
       (simp add: corridorEmitter_def)
  ultimately show ?thesis using h by simp
qed

text \<open>
  C5 (as amended). When the combined move of a moving emitter collides, its X-only move
  collides, its Z-only move does not, and the position reached with \<open>vx\<close> reversed
  does not collide either, the step leaves \<open>vx\<close> sign-flipped and \<open>vz\<close> unchanged.
  In every case the step changes each velocity component at most in sign, so the
  velocity magnitude is unchanged.
\<close>

theorem moveEmitter_x_bounce:
  "(moving e
      \<and> collidesAt zones ws (emitter_x e + vx e * delta) (emitter_z e + vz e * delta) EMITTER_RADIUS_M
      \<and> collidesAt zones ws (emitter_x e + vx e * delta) (emitter_z e) EMITTER_RADIUS_M
      \<and> \<not> collidesAt zones ws (emitter_x e) (emitter_z e + vz e * delta) EMITTER_RADIUS_M
      \<and> \<not> collidesAt zones ws (emitter_x e - vx e * delta) (emitter_z e + vz e * delta) EMITTER_RADIUS_M
    \<longrightarrow> vx (moveEmitter zones ws delta e) = - vx e \<and> vz (moveEmitter zones ws delta e) = vz e)
   \<and> \<bar>vx (moveEmitter zones ws delta e)\<bar> = \<bar>vx e\<bar>
   \<and> \<bar>vz (moveEmitter zones ws delta e)\<bar> = \<bar>vz e\<bar>
   \<and> hypot (vx (moveEmitter zones ws delta e)) (vz (moveEmitter zones ws delta e))
       = hypot (vx e) (vz e)"
proof (intro conjI impI)
  assume "moving e
      \<and> collidesAt zones ws (emitter_x e + vx e * delta) (emitter_z e + vz e * delta) EMITTER_RADIUS_M
      \<and> collidesAt zones ws (emitter_x e + vx e * delta) (emitter_z e) EMITTER_RADIUS_M
      \<and> \<not> collidesAt zones ws (emitter_x e) (emitter_z e + vz e * delta) EMITTER_RADIUS_M
      \<and> \<not> collidesAt zones ws (emitter_x e - vx e * delta) (emitter_z e + vz e * delta) EMITTER_RADIUS_M"
  then show "vx (moveEmitter zones ws delta e) = - vx e" "vz (moveEmitter zones ws delta e) = vz e"
    by (simp_all add: moveEmitter_def Let_def)
next
  show "\<bar>vx (moveEmitter zones ws delta e)\<bar> = \<bar>vx e\<bar>" "\<bar>vz (moveEmitter zones ws delta e)\<bar> = \<bar>vz e\<bar>"
    using moveEmitter_abs [of zones ws delta e] by simp_all
next
  show "hypot (vx (moveEmitter zones ws delta e)) (vz (moveEmitter zones ws delta e))
       = hypot (vx e) (vz e)"
    using moveEmitter_abs [of zones ws delta e] by (intro hypot_abs) simp_all
qed

text \<open>The emitter next to the right-hand wall of the corridor only.\<close>

theorem moveEmitter_x_bounce_witness:
  "moving corridorEmitter
   \<and> collidesAt [] (tl corridorWalls) (9 / 250) (- (11 / 500)) EMITTER_RADIUS_M
   \<and> collidesAt [] (tl corridorWalls) (9 / 250) 0 EMITTER_RADIUS_M
   \<and> \<not> collidesAt [] (tl corridorWalls) 0 (- (11 / 500)) EMITTER_RADIUS_M
   \<and> \<not> collidesAt [] (tl corridorWalls) (- (9 / 250)) (- (11 / 500)) EMITTER_RADIUS_M
   \<and> vx (moveEmitter [] (tl corridorWalls) (1 / 25) corridorEmitter) = - (9 / 10)
   \<and> vz (moveEmitter [] (tl corridorWalls) (1 / 25) corridorEmitter) = - (11 / 20)"
  using moveEmitter_x_bounce [of corridorEmitter "[]" "tl corridorWalls" "1 / 25"] one_wall_facts
  by (simp add: corridorEmitter_def)

text \<open>
  The claim as stated fails between the two corridor walls: the combined move and the
  X-only move collide, the Z-only move does not, and the step returns \<open>vx\<close> unchanged
  and \<open>vz\<close> reversed, because the position with \<open>vx\<close> reversed collides with the other
  wall and the final branch then reverses both components.
\<close>

theorem moveEmitter_x_bounce_counterexample:
  "moving corridorEmitter
   \<and> collidesAt [] corridorWalls (emitter_x corridorEmitter + vx corridorEmitter * (1 / 25))
        (emitter_z corridorEmitter + vz corridorEmitter * (1 / 25)) EMITTER_RADIUS_M
   \<and> collidesAt [] corridorWalls (emitter_x corridorEmitter + vx corridorEmitter * (1 / 25))
        (emitter_z corridorEmitter) EMITTER_RADIUS_M
   \<and> \<not> collidesAt [] corridorWalls (emitter_x corridorEmitter)
        (emitter_z corridorEmitter + vz corridorEmitter * (1 / 25)) EMITTER_RADIUS_M
   \<and> vx (moveEmitter [] corridorWalls (1 / 25) corridorEmitter) = vx corridorEmitter
   \<and> vx (moveEmitter [] corridorWalls (1 / 25) corridorEmitter) \<noteq> - vx corridorEmitter
   \<and> vz (moveEmitter [] corridorWalls (1 / 25) corridorEmitter) = - vz corridorEmitter
   \<and> vz (moveEmitter [] corridorWalls (1 / 25) corridorEmitter) \<noteq> vz corridorEmitter"
  using corridor_facts
  by (simp add: moveEmitter_def Let_def corridorEmitter_def)

text \<open>
  C6 (as amended). With the listener at (0, 0), heading 0, only the forward key held and
  0.1 s elapsed since the previous frame, the tick clamps \<open>dt\<close> to 0.04 s, so with
  \<open>MOVE_SPEED_MPS = 2.75\<close> the listener moves to (0, -0.11), when that point is free:
  forward maps to the -Z direction at heading 0.
\<close>

theorem tick_forward_clamped:
  assumes "walkMode w"
    and "listener w = \<lparr>pose_x = 0, pose_z = 0, headingDeg = 0\<rparr>"
    and "now - previous = 100"
    and "\<not> collidesAt (collisionZones w) (walls w) 0 (- 0.11) PLAYER_RADIUS_M"
  shows "tickDelta previous now = 0.04
       \<and> listener (tick {''w''} previous now w) = \<lparr>pose_x = 0, pose_z = - 0.11, headingDeg = 0\<rparr>"
proof -
  have "tickDelta previous now = 0.04"
    using assms(3) by (simp add: tickDelta_def)
  moreover have "listener (tick {''w''} previous now w)
                   = \<lparr>pose_x = 0, pose_z = - (11 / 100), headingDeg = 0\<rparr>"
    using assms by (intro tick_forward_value) simp_all
  ultimately show ?thesis by simp
qed

theorem tick_forward_clamped_witness:
  "walkMode initialWorld
   \<and> listener initialWorld = \<lparr>pose_x = 0, pose_z = 0, headingDeg = 0\<rparr>
   \<and> (100::real) - 0 = 100
   \<and> \<not> collidesAt (collisionZones initialWorld) (walls initialWorld) 0 (- 0.11) PLAYER_RADIUS_M
   \<and> listener (tick {''w''} 0 100 initialWorld) = \<lparr>pose_x = 0, pose_z = - 0.11, headingDeg = 0\<rparr>"
proof -
  have 1: "walkMode initialWorld" by (simp add: initialWorld_def)
  have 2: "listener initialWorld = \<lparr>pose_x = 0, pose_z = 0, headingDeg = 0\<rparr>"
    by (simp add: initialWorld_def INITIAL_LISTENER_def)
  have 3: "(100::real) - 0 = 100" by simp
  have 4: "\<not> collidesAt (collisionZones initialWorld) (walls initialWorld) 0 (- 0.11) PLAYER_RADIUS_M"
    using initial_forward_free by (simp add: initialWorld_def)
  from tick_forward_clamped [OF 1 2 3 4] 1 2 3 4 show ?thesis by blast
qed

text \<open>
  The claim as stated fails in the seed world: after 0.1 s the listener is at
  \<open>z = -0.11\<close>, which is 0.165 away from the claimed \<open>-0.275\<close>.
\<close>

theorem tick_forward_counterexample:
  "pose_z (listener (tick {''w''} 0 100 initialWorld)) = - 0.11
   \<and> \<bar>pose_z (listener (tick {''w''} 0 100 initialWorld)) - (- 0.275)\<bar> = 0.165"
proof -
  have "listener (tick {''w''} 0 100 initialWorld)
          = \<lparr>pose_x = 0, pose_z = - (11 / 100), headingDeg = 0\<rparr>"
    using initial_forward_free
    by (intro tick_forward_value) (simp_all add: initialWorld_def INITIAL_LISTENER_def)
  then show ?thesis by simp
qed









text \<open>
  C7 (as amended). An emitter added by a double-click is never placed out of bounds: the
  click is mapped to a world point with each coordinate clamped to [-16, 16], and the
  emitter is stored at that point only if \<open>collidesAt(point, EMITTER_RADIUS_M)\<close> is
  false, so a stored emitter lies at least 0.35 m inside the world circle. A
  double-click requesting a position at distance 16.5 m from the origin stores nothing
  and leaves the state as it was.
\<close>

theorem doubleClick_in_bounds:
  "(emitters (onCanvasDoubleClick localX localY d w) = emitters w
    \<or> (\<exists>e. emitters (onCanvasDoubleClick localX localY d w) = emitters w @ [e]
          \<and> (emitter_x e, emitter_z e) = canvasToPoint localX localY CANVAS_SIZE
          \<and> hypot (emitter_x e) (emitter_z e) + EMITTER_RADIUS_M \<le> WORLD_RADIUS_M))
   \<and> (hypot x z = 16.5 \<longrightarrow>
        onCanvasDoubleClick (fst (pointToCanvas x z CANVAS_SIZE)) (snd (pointToCanvas x z CANVAS_SIZE)) d w
          = w)"
proof (intro conjI impI)
  show "emitters (onCanvasDoubleClick localX localY d w) = emitters w
    \<or> (\<exists>e. emitters (onCanvasDoubleClick localX localY d w) = emitters w @ [e]
          \<and> (emitter_x e, emitter_z e) = canvasToPoint localX localY CANVAS_SIZE
          \<and> hypot (emitter_x e) (emitter_z e) + EMITTER_RADIUS_M \<le> WORLD_RADIUS_M)"
  proof (cases "collidesAt (collisionZones w) (walls w) (fst (canvasToPoint localX localY CANVAS_SIZE))
                  (snd (canvasToPoint localX localY CANVAS_SIZE)) EMITTER_RADIUS_M")
    case True
    then show ?thesis by (simp add: onCanvasDoubleClick_def Let_def)
  next
    case False
    then have "hypot (fst (canvasToPoint localX localY CANVAS_SIZE))
                  (snd (canvasToPoint localX localY CANVAS_SIZE)) + EMITTER_RADIUS_M \<le> WORLD_RADIUS_M"
      unfolding collidesAt_iff by linarith
    with False show ?thesis
      by (simp add: onCanvasDoubleClick_def Let_def addEmitter_def)
  qed
next
  assume far: "hypot x z = 16.5"
  have "collidesAt (collisionZones w) (walls w) (clamp x (- WORLD_RADIUS_M) WORLD_RADIUS_M)
          (clamp z (- WORLD_RADIUS_M) WORLD_RADIUS_M) EMITTER_RADIUS_M"
    unfolding collidesAt_iff hypot_add_gt_iff
    using hypot_clamp_far [of x z] far by (simp add: WORLD_RADIUS_M_def EMITTER_RADIUS_M_def)
  then show "onCanvasDoubleClick (fst (pointToCanvas x z CANVAS_SIZE))
               (snd (pointToCanvas x z CANVAS_SIZE)) d w = w"
    unfolding onCanvasDoubleClick_def canvasToPoint_pointToCanvas Let_def by simp
qed

theorem doubleClick_in_bounds_witness:
  "hypot 16.5 0 = 16.5
   \<and> onCanvasDoubleClick (fst (pointToCanvas 16.5 0 CANVAS_SIZE))
        (snd (pointToCanvas 16.5 0 CANVAS_SIZE)) sampleDraws initialWorld = initialWorld"
proof -
  have h: "hypot 16.5 0 = 16.5" by (simp add: hypot_axis)
  from doubleClick_in_bounds [of 0 0 sampleDraws initialWorld "16.5" 0] h
  show ?thesis by blast
qed

text \<open>
  The claim as stated fails. A double-click at the canvas point of world position
  (16.5, 0) stores no emitter at all, so there is no clamped stored position; and the
  \<open>Add Emitter\<close> button, with the listener standing free at (0, -15.5) and its
  random offsets drawn as 0 and -1, stores an emitter at (0, -16.5), outside the world
  radius, since \<open>addEmitter\<close> stores the position it is given.
\<close>

theorem addEmitter_counterexample:
  "emitters (onCanvasDoubleClick (fst (pointToCanvas 16.5 0 CANVAS_SIZE))
        (snd (pointToCanvas 16.5 0 CANVAS_SIZE)) sampleDraws initialWorld) = emitters initialWorld
   \<and> \<not> collidesAt (collisionZones edgeWorld) (walls edgeWorld)
         (pose_x (listener edgeWorld)) (pose_z (listener edgeWorld)) PLAYER_RADIUS_M
   \<and> emitter_x (last (emitters (onAddEmitterClick (1 / 2) (1 / 4) sampleDraws edgeWorld))) = 0
   \<and> emitter_z (last (emitters (onAddEmitterClick (1 / 2) (1 / 4) sampleDraws edgeWorld))) = - 16.5
   \<and> hypot (emitter_x (last (emitters (onAddEmitterClick (1 / 2) (1 / 4) sampleDraws edgeWorld))))
            (emitter_z (last (emitters (onAddEmitterClick (1 / 2) (1 / 4) sampleDraws edgeWorld))))
       > WORLD_RADIUS_M"
proof -
  have c: "collidesAt INITIAL_ZONES INITIAL_WALLS 16 0 EMITTER_RADIUS_M"
    unfolding collidesAt_eval by (simp add: WORLD_RADIUS_M_def EMITTER_RADIUS_M_def)
  have 1: "emitters (onCanvasDoubleClick (fst (pointToCanvas 16.5 0 CANVAS_SIZE))
        (snd (pointToCanvas 16.5 0 CANVAS_SIZE)) sampleDraws initialWorld) = emitters initialWorld"
    unfolding onCanvasDoubleClick_def canvasToPoint_pointToCanvas Let_def
    using c by (simp add: initialWorld_def clamp_def WORLD_RADIUS_M_def)
  have 2: "\<not> collidesAt (collisionZones edgeWorld) (walls edgeWorld)
         (pose_x (listener edgeWorld)) (pose_z (listener edgeWorld)) PLAYER_RADIUS_M"
    unfolding collidesAt_eval
    by (simp add: edgeWorld_def initialWorld_def INITIAL_ZONES_def INITIAL_WALLS_def
                  PLAYER_RADIUS_M_def WORLD_RADIUS_M_def insideExpanded_def)
  have 3: "emitter_x (last (emitters (onAddEmitterClick (1 / 2) (1 / 4) sampleDraws edgeWorld))) = 0"
          "emitter_z (last (emitters (onAddEmitterClick (1 / 2) (1 / 4) sampleDraws edgeWorld))) = - (33 / 2)"
    by (simp_all add: onAddEmitterClick_def addEmitter_def Let_def randomBetween_def edgeWorld_def)
  have 4: "hypot 0 (- (33 / 2)) > WORLD_RADIUS_M"
    by (simp add: hypot_axis WORLD_RADIUS_M_def)
  from 1 2 3 4 show ?thesis by simp
qed





text \<open>
  C9. When the audio context and master gain exist and audio is running, one run of
  \<open>reconnectAudioEmitters\<close> succeeds and leaves the unit map with exactly the live
  emitter ids as keys, each once; a second run with the same emitters, listener, zones
  and walls succeeds too, performs no create and no dispose operation, and keeps the
  keys of the map.
\<close>

theorem reconnect_idempotent:
  assumes "audioContextRef st" "masterGainRef st" "audioRunning st"
    and "distinct (map fst (emitterNodesRef st))"
  shows "\<exists>st' ops st'' ops'.
           reconnectAudioEmitters zones ws l ems st = Inr (st', ops)
         \<and> distinct (map fst (emitterNodesRef st'))
         \<and> set (map fst (emitterNodesRef st')) = emitter_id ` set ems
         \<and> reconnectAudioEmitters zones ws l ems st' = Inr (st'', ops')
         \<and> list_all (\<lambda>op. \<not> isCreate op \<and> \<not> isDispose op) ops'
         \<and> map fst (emitterNodesRef st'') = map fst (emitterNodesRef st')"
proof -
  from reconnect_first [OF assms(1-3), of zones ws l ems] assms(4)
  obtain st' ops where 1: "reconnectAudioEmitters zones ws l ems st = Inr (st', ops)"
    and f: "audioContextRef st'" "audioRunning st'"
    and k: "set (map fst (emitterNodesRef st')) = emitter_id ` set ems"
    and d: "distinct (map fst (emitterNodesRef st'))"
    by blast
  from reconnect_again [OF f k, of zones ws l]
  obtain st'' where 2: "reconnectAudioEmitters zones ws l ems st'
                          = Inr (st'', map (\<lambda>e. Retarget (emitter_id e)) ems)"
    and k2: "map fst (emitterNodesRef st'') = map fst (emitterNodesRef st')"
    by blast
  have "list_all (\<lambda>op. \<not> isCreate op \<and> \<not> isDispose op) (map (\<lambda>e. Retarget (emitter_id e)) ems)"
    by (simp add: list_all_iff isCreate_def isDispose_def)
  with 1 2 k d k2 show ?thesis by blast
qed


theorem reconnect_idempotent_witness:
  "audioContextRef staleAudio \<and> masterGainRef staleAudio \<and> audioRunning staleAudio
   \<and> distinct (map fst (emitterNodesRef staleAudio))
   \<and> (\<exists>st' ops st'' ops'.
           reconnectAudioEmitters INITIAL_ZONES INITIAL_WALLS INITIAL_LISTENER INITIAL_EMITTERS staleAudio
             = Inr (st', ops)
         \<and> distinct (map fst (emitterNodesRef st'))
         \<and> set (map fst (emitterNodesRef st')) = {''emitter-1'', ''emitter-2'', ''emitter-3''}
         \<and> reconnectAudioEmitters INITIAL_ZONES INITIAL_WALLS INITIAL_LISTENER INITIAL_EMITTERS st'
             = Inr (st'', ops')
         \<and> list_all (\<lambda>op. \<not> isCreate op \<and> \<not> isDispose op) ops'
         \<and> map fst (emitterNodesRef st'') = map fst (emitterNodesRef st'))"
proof -
  have h: "audioContextRef staleAudio" "masterGainRef staleAudio" "audioRunning staleAudio"
    "distinct (map fst (emitterNodesRef staleAudio))"
    by (simp_all add: staleAudio_def)
  have ids: "emitter_id ` set INITIAL_EMITTERS = {''emitter-1'', ''emitter-2'', ''emitter-3''}"
    by (simp add: INITIAL_EMITTERS_def)
  from reconnect_idempotent [OF h, of INITIAL_ZONES INITIAL_WALLS INITIAL_LISTENER INITIAL_EMITTERS]
  show ?thesis using h unfolding ids by simp
qed

end
